theory Spec2Isabelle
  imports Main "HOL-Library.Word" "HOL-Library.Multiset"
begin

unbundle bit_operations_syntax

section \<open>Data model of the Braille converter\<close>

text \<open>
  A JavaScript string is a sequence of 16-bit UTF-16 code units. The strings of
  \<^verbatim>\<open>src/converters/BrailleConverter.ts\<close> are modelled as lists of 16-bit words, so
  that \<^verbatim>\<open>String.fromCharCode\<close> (which reduces its argument modulo \<open>2^16\<close>), the
  regular expressions without the \<^verbatim>\<open>u\<close> flag (which match single code units) and
  the string iterator of \<^verbatim>\<open>for (const char of text)\<close> (which yields code points,
  joining a surrogate pair into one two-unit string) can each be written as the
  language defines them.
\<close>

type_synonym jsstring = "16 word list"

text \<open>
  \<^verbatim>\<open>interface BraillePattern { char: string; unicode: string; dots: number[] }\<close>.
  The dot numbers are the numbers of the \<^verbatim>\<open>dots\<close> array in array order; a value
  outside \<open>1..8\<close> is one that no \<^verbatim>\<open>case\<close> of the switch in
  \<^verbatim>\<open>dotsToUnicode\<close> matches.
\<close>

record BraillePattern =
  char :: jsstring
  unicode :: jsstring
  dots :: "nat list"

text \<open>The result type of \<^verbatim>\<open>detectLanguage\<close>.\<close>

datatype Language = Korean | English | Japanese | Mixed

section \<open>dotsToUnicode\<close>

text \<open>
  \<^verbatim>\<open>String.fromCharCode(code)\<close> for one argument: the one-unit string holding
  \<open>code mod 2^16\<close>.
\<close>

definition fromCharCode :: "nat \<Rightarrow> jsstring" where
  "fromCharCode code = [word_of_nat code]"

text \<open>
  The switch of the loop body: what is added to \<^verbatim>\<open>code\<close> for one \<^verbatim>\<open>dot\<close>.
  No case matches any other value, which leaves \<^verbatim>\<open>code\<close> as it is.
\<close>

definition dotIncrement :: "nat \<Rightarrow> nat" where
  "dotIncrement dot =
     (if dot = 1 then 0x01
      else if dot = 2 then 0x02
      else if dot = 3 then 0x04
      else if dot = 4 then 0x08
      else if dot = 5 then 0x10
      else if dot = 6 then 0x20
      else if dot = 7 then 0x40
      else if dot = 8 then 0x80
      else 0)"

text \<open>
  \<^verbatim>\<open>let code = 0x2800; for (const dot of dots) { switch ... code += ... }\<close>:
  the value of \<^verbatim>\<open>code\<close> after the loop, started from \<open>code\<close>.
\<close>

fun dotsLoop :: "nat list \<Rightarrow> nat \<Rightarrow> nat" where
  "dotsLoop [] code = code"
| "dotsLoop (dot # rest) code = dotsLoop rest (code + dotIncrement dot)"

definition dotsToUnicode :: "nat list \<Rightarrow> jsstring" where
  "dotsToUnicode ds = fromCharCode (dotsLoop ds 0x2800)"

section \<open>Strings, the string iterator and regular expressions\<close>

text \<open>
  \<^verbatim>\<open>for (const char of text)\<close> runs the string iterator: it yields the string code
  point by code point. A lead surrogate followed by a trail surrogate is yielded as
  one string of two code units; every other code unit, a lone surrogate too, is
  yielded alone.
\<close>

definition isLeadSurrogate :: "16 word \<Rightarrow> bool" where
  "isLeadSurrogate u \<longleftrightarrow> 0xD800 \<le> u \<and> u \<le> 0xDBFF"

definition isTrailSurrogate :: "16 word \<Rightarrow> bool" where
  "isTrailSurrogate u \<longleftrightarrow> 0xDC00 \<le> u \<and> u \<le> 0xDFFF"

fun stringIterator :: "jsstring \<Rightarrow> jsstring list" where
  "stringIterator [] = []"
| "stringIterator [u] = [[u]]"
| "stringIterator (u # v # rest) =
     (if isLeadSurrogate u \<and> isTrailSurrogate v then [u, v] # stringIterator rest
      else [u] # stringIterator (v # rest))"

text \<open>
  Every regular expression of the source is one character class of code-unit ranges,
  without flags: \<^verbatim>\<open>pattern.test(s)\<close> holds when some code unit of \<open>s\<close> lies in one
  of the ranges. The Hangul range of the source is the literal \<^verbatim>\<open>[U+AC00-U+D7A3]\<close>.
\<close>

type_synonym charClass = "(16 word \<times> 16 word) list"

definition classMatches :: "charClass \<Rightarrow> 16 word \<Rightarrow> bool" where
  "classMatches cls u = list_ex (\<lambda>(lo, hi). lo \<le> u \<and> u \<le> hi) cls"

definition regexTest :: "charClass \<Rightarrow> jsstring \<Rightarrow> bool" where
  "regexTest cls s = list_ex (classMatches cls) s"

definition koreanPattern :: charClass where
  "koreanPattern = [(0xAC00, 0xD7A3)]"

definition japanesePattern :: charClass where
  "japanesePattern = [(0x3040, 0x309F), (0x30A0, 0x30FF)]"

definition englishPattern :: charClass where
  "englishPattern = [(0x61, 0x7A), (0x41, 0x5A)]"

definition alphanumericPattern :: charClass where
  "alphanumericPattern = [(0x61, 0x7A), (0x41, 0x5A), (0x30, 0x39)]"

section \<open>detectLanguage\<close>

definition detectLanguage :: "jsstring \<Rightarrow> Language" where
  "detectLanguage text =
     (let hasKorean = regexTest koreanPattern text;
          hasJapanese = regexTest japanesePattern text;
          hasEnglish = regexTest englishPattern text;
          count = length (filter (\<lambda>b. b) [hasKorean, hasJapanese, hasEnglish])
      in if count > 1 then Mixed
         else if hasKorean then Korean
         else if hasJapanese then Japanese
         else if hasEnglish then English
         else English)"

section \<open>The lookup tables\<close>

text \<open>
  Each table is an object literal \<^verbatim>\<open>Record<string, number[]>\<close>, kept here in source
  order with every key written as its UTF-16 code units. No key occurs twice in a
  table and every key is one code unit long. \<^verbatim>\<open>table[char]\<close> is \<open>map_of\<close>: the
  properties an object literal inherits all have names longer than the one or two code
  units the iterator yields, so a miss is \<^verbatim>\<open>undefined\<close>.
\<close>

definition koreanBrailleMap :: "(jsstring \<times> nat list) list" where
  "koreanBrailleMap =
     [
      ([0x3131], [1, 4]), ([0x3134], [1, 4, 5]), ([0x3137], [2, 4]),
      ([0x3139], [5]), ([0x3141], [1, 5]), ([0x3142], [1, 2]),
      ([0x3145], [6]), ([0x3147], [1, 2, 4, 5, 6]), ([0x3148], [4]),
      ([0x314A], [5, 6]), ([0x314B], [1, 2, 5]), ([0x314C], [1, 2, 5, 6]),
      ([0x314D], [1, 4, 5, 6]), ([0x314E], [2, 5, 6]), ([0x314F], [1, 2, 6]),
      ([0x3151], [3, 4, 5]), ([0x3153], [2, 3, 4]), ([0x3155], [1, 3, 6]),
      ([0x3157], [1, 3, 6]), ([0x315B], [3, 4, 6]), ([0x315C], [1, 3, 4]),
      ([0x3160], [1, 3, 4, 6]), ([0x3161], [2, 4, 6]), ([0x3163], [1, 3, 5]),
      ([0xC548], [1, 2, 4, 5, 6]), ([0xB155], [1, 4, 5, 1, 2, 6]), ([0xD558], [2, 5, 6, 1, 2, 6]),
      ([0xC138], [6, 2, 3, 4]), ([0xC694], [3, 4, 6])
     ]"

definition englishBrailleMap :: "(jsstring \<times> nat list) list" where
  "englishBrailleMap =
     [
      ([0x0061], [1]), ([0x0062], [1, 2]), ([0x0063], [1, 4]),
      ([0x0064], [1, 4, 5]), ([0x0065], [1, 5]), ([0x0066], [1, 2, 4]),
      ([0x0067], [1, 2, 4, 5]), ([0x0068], [1, 2, 5]), ([0x0069], [2, 4]),
      ([0x006A], [2, 4, 5]), ([0x006B], [1, 3]), ([0x006C], [1, 2, 3]),
      ([0x006D], [1, 3, 4]), ([0x006E], [1, 3, 4, 5]), ([0x006F], [1, 3, 5]),
      ([0x0070], [1, 2, 3, 4]), ([0x0071], [1, 2, 3, 4, 5]), ([0x0072], [1, 2, 3, 5]),
      ([0x0073], [2, 3, 4]), ([0x0074], [2, 3, 4, 5]), ([0x0075], [1, 3, 6]),
      ([0x0076], [1, 2, 3, 6]), ([0x0077], [2, 4, 5, 6]), ([0x0078], [1, 3, 4, 6]),
      ([0x0079], [1, 3, 4, 5, 6]), ([0x007A], [1, 3, 5, 6]), ([0x0041], [6, 1]),
      ([0x0042], [6, 1, 2]), ([0x0043], [6, 1, 4]), ([0x0044], [6, 1, 4, 5]),
      ([0x0045], [6, 1, 5]), ([0x0046], [6, 1, 2, 4]), ([0x0047], [6, 1, 2, 4, 5]),
      ([0x0048], [6, 1, 2, 5]), ([0x0049], [6, 2, 4]), ([0x004A], [6, 2, 4, 5]),
      ([0x004B], [6, 1, 3]), ([0x004C], [6, 1, 2, 3]), ([0x004D], [6, 1, 3, 4]),
      ([0x004E], [6, 1, 3, 4, 5]), ([0x004F], [6, 1, 3, 5]), ([0x0050], [6, 1, 2, 3, 4]),
      ([0x0051], [6, 1, 2, 3, 4, 5]), ([0x0052], [6, 1, 2, 3, 5]), ([0x0053], [6, 2, 3, 4]),
      ([0x0054], [6, 2, 3, 4, 5]), ([0x0055], [6, 1, 3, 6]), ([0x0056], [6, 1, 2, 3, 6]),
      ([0x0057], [6, 2, 4, 5, 6]), ([0x0058], [6, 1, 3, 4, 6]), ([0x0059], [6, 1, 3, 4, 5, 6]),
      ([0x005A], [6, 1, 3, 5, 6]), ([0x0031], [3, 4, 5, 6, 1]), ([0x0032], [3, 4, 5, 6, 1, 2]),
      ([0x0033], [3, 4, 5, 6, 1, 4]), ([0x0034], [3, 4, 5, 6, 1, 4, 5]), ([0x0035], [3, 4, 5, 6, 1, 5]),
      ([0x0036], [3, 4, 5, 6, 1, 2, 4]), ([0x0037], [3, 4, 5, 6, 1, 2, 4, 5]), ([0x0038], [3, 4, 5, 6, 1, 2, 5]),
      ([0x0039], [3, 4, 5, 6, 2, 4]), ([0x0030], [3, 4, 5, 6, 2, 4, 5])
     ]"

definition japaneseBrailleMap :: "(jsstring \<times> nat list) list" where
  "japaneseBrailleMap =
     [
      ([0x3042], [1]), ([0x3044], [1, 2]), ([0x3046], [1, 4]),
      ([0x3048], [1, 2, 4]), ([0x304A], [2, 4]), ([0x304B], [1, 6]),
      ([0x304D], [1, 2, 6]), ([0x304F], [1, 4, 6]), ([0x3051], [1, 2, 4, 6]),
      ([0x3053], [2, 4, 6]), ([0x3055], [1, 5, 6]), ([0x3057], [1, 2, 5, 6]),
      ([0x3059], [1, 4, 5, 6]), ([0x305B], [1, 2, 4, 5, 6]), ([0x305D], [2, 4, 5, 6]),
      ([0x305F], [1, 3, 6]), ([0x3061], [1, 2, 3, 6]), ([0x3064], [1, 3, 4, 6]),
      ([0x3066], [1, 2, 3, 4, 6]), ([0x3068], [2, 3, 4, 6]), ([0x306A], [1, 3, 5, 6]),
      ([0x306B], [1, 2, 3, 5, 6]), ([0x306C], [1, 3, 4, 5, 6]), ([0x306D], [1, 2, 3, 4, 5, 6]),
      ([0x306E], [2, 3, 4, 5, 6]), ([0x306F], [1, 3]), ([0x3072], [1, 2, 3]),
      ([0x3075], [1, 3, 4]), ([0x3078], [1, 2, 3, 4]), ([0x307B], [2, 3, 4]),
      ([0x307E], [1, 3, 5]), ([0x307F], [1, 2, 3, 5]), ([0x3080], [1, 3, 4, 5]),
      ([0x3081], [1, 2, 3, 4, 5]), ([0x3082], [2, 3, 4, 5]), ([0x3084], [3, 4]),
      ([0x3086], [3, 4, 6]), ([0x3088], [3, 4, 5]), ([0x3089], [1, 5]),
      ([0x308A], [1, 2, 5]), ([0x308B], [1, 4, 5]), ([0x308C], [1, 2, 4, 5]),
      ([0x308D], [2, 4, 5]), ([0x308F], [3]), ([0x3093], [3, 5, 6]),
      ([0x30A2], [1]), ([0x30A4], [1, 2]), ([0x30A6], [1, 4]),
      ([0x30A8], [1, 2, 4]), ([0x30AA], [2, 4]), ([0x30AB], [1, 6]),
      ([0x30AD], [1, 2, 6]), ([0x30AF], [1, 4, 6]), ([0x30B1], [1, 2, 4, 6]),
      ([0x30B3], [2, 4, 6])
     ]"

definition punctuationMap :: "(jsstring \<times> nat list) list" where
  "punctuationMap =
     [
      ([0x002E], [2, 5, 6]), ([0x002C], [2]), ([0x003F], [2, 6]),
      ([0x0021], [2, 3, 5]), ([0x003A], [2, 5]), ([0x003B], [2, 3]),
      ([0x002D], [3, 6]), ([0x0028], [2, 3, 6]), ([0x0029], [3, 5, 6]),
      ([0x0022], [2, 3, 6]), ([0x0027], [3])
     ]"

section \<open>The per-script converters and convertToBraille\<close>

text \<open>
  The four private converters share one body: look the character up, and on a hit
  (an array is truthy, an empty one too) return the pattern built from the dots found,
  otherwise \<^verbatim>\<open>null\<close>.
\<close>

definition lookupPattern :: "(jsstring \<times> nat list) list \<Rightarrow> jsstring \<Rightarrow> BraillePattern option" where
  "lookupPattern table ch =
     (case map_of table ch of
        Some ds \<Rightarrow> Some \<lparr>char = ch, unicode = dotsToUnicode ds, dots = ds\<rparr>
      | None \<Rightarrow> None)"

definition convertKoreanChar :: "jsstring \<Rightarrow> BraillePattern option" where
  "convertKoreanChar ch = lookupPattern koreanBrailleMap ch"

definition convertEnglishChar :: "jsstring \<Rightarrow> BraillePattern option" where
  "convertEnglishChar ch = lookupPattern englishBrailleMap ch"

definition convertJapaneseChar :: "jsstring \<Rightarrow> BraillePattern option" where
  "convertJapaneseChar ch = lookupPattern japaneseBrailleMap ch"

definition convertPunctuation :: "jsstring \<Rightarrow> BraillePattern option" where
  "convertPunctuation ch = lookupPattern punctuationMap ch"

text \<open>
  The choice of converter in the loop body of \<^verbatim>\<open>convertToBraille\<close>: the
  \<^verbatim>\<open>if / else if\<close> chain that assigns \<^verbatim>\<open>pattern\<close>.
\<close>

definition selectPattern :: "jsstring \<Rightarrow> BraillePattern option" where
  "selectPattern ch =
     (if regexTest koreanPattern ch then convertKoreanChar ch
      else if regexTest japanesePattern ch then convertJapaneseChar ch
      else if regexTest alphanumericPattern ch then convertEnglishChar ch
      else convertPunctuation ch)"

text \<open>
  One round of the loop: the pattern pushed onto \<^verbatim>\<open>result\<close> for the character
  \<open>ch\<close>. Space and tab, then newline, are handled first (\<^verbatim>\<open>continue\<close>).
\<close>

definition convertStep :: "jsstring \<Rightarrow> BraillePattern" where
  "convertStep ch =
     (if ch = [0x20] \<or> ch = [0x09] then \<lparr>char = ch, unicode = [0x20], dots = []\<rparr>
      else if ch = [0x0A] then \<lparr>char = ch, unicode = [0x0A], dots = []\<rparr>
      else case selectPattern ch of
             Some pattern \<Rightarrow> pattern
           | None \<Rightarrow> \<lparr>char = ch, unicode = dotsToUnicode [2, 6], dots = [2, 6]\<rparr>)"

text \<open>
  \<^verbatim>\<open>convertToBraille(text, language?)\<close>. An omitted \<^verbatim>\<open>language\<close> is \<open>None\<close>;
  \<^verbatim>\<open>detectedLang = language || this.detectLanguage(text)\<close> is computed as the source
  does. The loop pushes one pattern per iteration onto \<^verbatim>\<open>result\<close>.
\<close>

definition convertToBraille :: "jsstring \<Rightarrow> Language option \<Rightarrow> BraillePattern list" where
  "convertToBraille text language =
     (let detectedLang = (case language of Some l \<Rightarrow> l | None \<Rightarrow> detectLanguage text)
      in fold (\<lambda>ch result. result @ [convertStep ch]) (stringIterator text) [])"

section \<open>The specification's bit mask\<close>

text \<open>
  The bit mask of the specification (section 4.1), written from its words: bit \<open>k - 1\<close>
  is set if and only if dot \<open>k\<close> (for \<open>k\<close> in \<open>1..8\<close>) is a member of the set.
\<close>

definition specBitmask :: "nat set \<Rightarrow> nat" where
  "specBitmask S = (\<Sum>k \<leftarrow> [1..<9]. if k \<in> S then 2 ^ (k - 1) else 0)"

section \<open>Properties of dotsToUnicode\<close>

lemma dotsLoop_sum: "dotsLoop ds code = code + sum_list (map dotIncrement ds)"
  by (induction ds arbitrary: code) simp_all

lemma bit_sum_exp: "finite A \<Longrightarrow> bit (\<Sum>j\<in>A. (2::nat) ^ j) n \<longleftrightarrow> n \<in> A"
proof (induction A arbitrary: n rule: finite_induct)
  case empty
  then show ?case by simp
next
  case (insert x F)
  have disj: "\<And>m. \<not> bit ((2::nat) ^ x) m \<or> \<not> bit (\<Sum>j\<in>F. (2::nat) ^ j) m"
    using insert by (auto simp: bit_exp_iff)
  have "(\<Sum>j\<in>insert x F. (2::nat) ^ j) = 2 ^ x + (\<Sum>j\<in>F. 2 ^ j)"
    using insert by simp
  also have "\<dots> = 2 ^ x OR (\<Sum>j\<in>F. 2 ^ j)"
    by (rule disjunctive_add) (rule disj)
  finally show ?case
    using insert by (auto simp: bit_or_iff bit_exp_iff)
qed

lemma specBitmask_sum: "specBitmask S = (\<Sum>j\<in>{j. j < 8 \<and> Suc j \<in> S}. 2 ^ j)"
proof -
  have "specBitmask S = (\<Sum>k\<in>set [1..<9]. if k \<in> S then 2 ^ (k - 1) else 0)"
    unfolding specBitmask_def by (rule sum_list_distinct_conv_sum_set) simp
  also have "\<dots> = (\<Sum>k\<in>{1..<9}. if k \<in> S then 2 ^ (k - 1) else 0)"
    by (simp only: set_upt)
  also have "\<dots> = (\<Sum>k\<in>{1..<9} \<inter> S. 2 ^ (k - 1))"
    by (rule sum.inter_restrict [symmetric]) simp
  also have "\<dots> = (\<Sum>j\<in>(\<lambda>k. k - 1) ` ({1..<9} \<inter> S). 2 ^ j)"
    by (subst sum.reindex) (auto simp: inj_on_def)
  also have "(\<lambda>k. k - 1) ` ({1..<9} \<inter> S) = {j. j < 8 \<and> Suc j \<in> S}"
    by (force simp: image_iff)
  finally show ?thesis .
qed

lemma bit_specBitmask: "bit (specBitmask S) n \<longleftrightarrow> n < 8 \<and> Suc n \<in> S"
  by (simp add: specBitmask_sum bit_sum_exp)

lemma dotIncrement_exp: "1 \<le> k \<Longrightarrow> k \<le> 8 \<Longrightarrow> dotIncrement k = 2 ^ (k - 1)"
proof -
  assume "1 \<le> k" "k \<le> 8"
  then have "k = 1 \<or> k = 2 \<or> k = 3 \<or> k = 4 \<or> k = 5 \<or> k = 6 \<or> k = 7 \<or> k = 8"
    by arith
  then show ?thesis
    by (auto simp: dotIncrement_def)
qed

lemma sum_list_dotIncrement:
  assumes "distinct ds" and "set ds \<subseteq> {1..8}"
  shows "sum_list (map dotIncrement ds) = specBitmask (set ds)"
proof -
  have "sum_list (map dotIncrement ds) = (\<Sum>k\<in>set ds. dotIncrement k)"
    using assms(1) by (simp add: sum_list_distinct_conv_sum_set)
  also have "\<dots> = (\<Sum>k\<in>set ds. 2 ^ (k - 1))"
    using assms(2) by (intro sum.cong refl dotIncrement_exp) auto
  also have "\<dots> = (\<Sum>k\<in>{1..<9} \<inter> set ds. 2 ^ (k - 1))"
  proof -
    have "{1..<9} \<inter> set ds = set ds" using assms(2) by auto
    then show ?thesis by simp
  qed
  also have "\<dots> = (\<Sum>k\<in>set [1..<9]. if k \<in> set ds then 2 ^ (k - 1) else 0)"
    by (simp only: set_upt sum.inter_restrict [OF finite_atLeastLessThan])
  also have "\<dots> = specBitmask (set ds)"
    unfolding specBitmask_def by (rule sum_list_distinct_conv_sum_set [symmetric]) simp
  finally show ?thesis .
qed

text \<open>
  C2: for a duplicate-free list of dot numbers from \<open>1..8\<close>, \<^verbatim>\<open>dotsToUnicode\<close>
  returns the one-unit string at \<open>U+2800 + bitmask\<close>; the bit mask is below 256 and
  its bit \<open>k - 1\<close> is set exactly when dot \<open>k\<close> is in the list; no dots give
  \<open>U+2800\<close>.
\<close>

theorem dotsToUnicode_bitmask:
  assumes "distinct ds" and "set ds \<subseteq> {1..8}"
  shows "dotsToUnicode ds = [0x2800 + word_of_nat (specBitmask (set ds))]
       \<and> specBitmask (set ds) < 256
       \<and> (\<forall>k\<in>{1..8}. bit (specBitmask (set ds)) (k - 1) \<longleftrightarrow> k \<in> set ds)
       \<and> dotsToUnicode [] = [0x2800]"
proof -
  have "dotsToUnicode ds = [0x2800 + word_of_nat (specBitmask (set ds))]"
    using assms by (simp add: dotsToUnicode_def fromCharCode_def dotsLoop_sum sum_list_dotIncrement)
  moreover have "specBitmask (set ds) < 256"
  proof -
    have "take_bit 8 (specBitmask (set ds)) = specBitmask (set ds)"
      by (rule bit_eqI) (auto simp: bit_take_bit_iff bit_specBitmask)
    then show ?thesis
      using take_bit_nat_less_exp [of 8 "specBitmask (set ds)"] by simp
  qed
  moreover have "\<forall>k\<in>{1..8}. bit (specBitmask (set ds)) (k - 1) \<longleftrightarrow> k \<in> set ds"
    by (auto simp: bit_specBitmask)
  moreover have "dotsToUnicode [] = [0x2800]"
    by (simp add: dotsToUnicode_def fromCharCode_def)
  ultimately show ?thesis by blast
qed

theorem dotsToUnicode_bitmask_witness:
  "distinct [1, 3, 6 :: nat] \<and> set [1, 3, 6 :: nat] \<subseteq> {1..8}
   \<and> dotsToUnicode [1, 3, 6] = [0x2825] \<and> specBitmask (set [1, 3, 6]) = 37"
  using dotsToUnicode_bitmask [of "[1, 3, 6]"]
  by (simp add: specBitmask_def upt_rec)

lemma dotsToUnicode_mset:
  "dotsToUnicode ds = fromCharCode (0x2800 + sum_mset (image_mset dotIncrement (mset ds)))"
proof -
  have "sum_list (map dotIncrement ds) = sum_mset (mset (map dotIncrement ds))"
    by (simp only: sum_mset_sum_list)
  then show ?thesis
    by (simp add: dotsToUnicode_def dotsLoop_sum)
qed

text \<open>
  C8: \<^verbatim>\<open>dotsToUnicode\<close> does not depend on the order of the dots: two lists that
  are permutations of each other (the duplicate-free lists over \<open>1..8\<close> among them)
  give the same character.
\<close>

theorem dotsToUnicode_order_independent:
  assumes "mset ds = mset ds'"
  shows "dotsToUnicode ds = dotsToUnicode ds'"
  using assms by (simp add: dotsToUnicode_mset)

theorem dotsToUnicode_order_independent_witness:
  "mset [2, 1 :: nat] = mset [1, 2] \<and> dotsToUnicode [2, 1] = dotsToUnicode [1, 2]
   \<and> dotsToUnicode [1, 2] = [0x2803]"
proof -
  have perm: "mset [2, 1 :: nat] = mset [1, 2]"
    by (simp add: add_mset_commute)
  have "dotsToUnicode [1, 2] = [0x2803]"
    by (simp add: dotsToUnicode_def fromCharCode_def dotIncrement_def)
  with perm dotsToUnicode_order_independent [OF perm] show ?thesis
    by simp
qed

section \<open>Properties of convertToBraille\<close>

text \<open>The loop pushes the result of the loop body for each string the iterator yields.\<close>

lemma fold_push: "fold (\<lambda>x result. result @ [f x]) xs acc = acc @ map f xs"
  by (induction xs arbitrary: acc) simp_all

lemma convertToBraille_map: "convertToBraille text language = map convertStep (stringIterator text)"
  by (simp add: convertToBraille_def fold_push)

lemma char_lookupPattern: "lookupPattern table ch = Some p \<Longrightarrow> char p = ch"
  by (auto simp: lookupPattern_def split: option.splits)

lemma char_selectPattern: "selectPattern ch = Some p \<Longrightarrow> char p = ch"
  by (auto simp: selectPattern_def convertKoreanChar_def convertJapaneseChar_def
      convertEnglishChar_def convertPunctuation_def dest: char_lookupPattern split: if_splits)

lemma char_convertStep: "char (convertStep ch) = ch"
  by (auto simp: convertStep_def dest: char_selectPattern split: option.splits)

lemma concat_stringIterator: "concat (stringIterator text) = text"
  by (induction "text" rule: stringIterator.induct) simp_all

lemma stringIterator_no_lead:
  "list_all (\<lambda>u. \<not> isLeadSurrogate u) text \<Longrightarrow> stringIterator text = map (\<lambda>u. [u]) text"
  by (induction "text" rule: stringIterator.induct) simp_all

text \<open>
  C1: \<^verbatim>\<open>convertToBraille\<close> returns one pattern for each character (code point)
  that the string iterator yields from the text, in the same order, and the
  \<^verbatim>\<open>char\<close> field of each pattern is that character: the \<^verbatim>\<open>char\<close> fields are
  the iterator's output, and joined together they are the input text, so nothing is
  dropped or reordered. For a text without lead surrogates the characters are its code
  units, and the number of patterns is the length of the text.
\<close>

theorem convertToBraille_one_record_per_character:
  "length (convertToBraille text language) = length (stringIterator text)
   \<and> map char (convertToBraille text language) = stringIterator text
   \<and> concat (map char (convertToBraille text language)) = text
   \<and> (list_all (\<lambda>u. \<not> isLeadSurrogate u) text \<longrightarrow>
        length (convertToBraille text language) = length text
        \<and> map char (convertToBraille text language) = map (\<lambda>u. [u]) text)"
  by (simp add: convertToBraille_map char_convertStep concat_stringIterator comp_def
      stringIterator_no_lead)

theorem convertToBraille_one_record_per_character_witness:
  "list_all (\<lambda>u. \<not> isLeadSurrogate u) [0x61, 0x20, 0x62]
   \<and> length (convertToBraille [0x61, 0x20, 0x62] None) = 3
   \<and> map char (convertToBraille [0x61, 0x20, 0x62] None) = [[0x61], [0x20], [0x62]]"
proof -
  have bmp: "list_all (\<lambda>u. \<not> isLeadSurrogate u) [0x61, 0x20, 0x62]"
    by (simp add: isLeadSurrogate_def)
  with convertToBraille_one_record_per_character [of "[0x61, 0x20, 0x62]" None]
  show ?thesis by simp
qed

text \<open>
  C6: the result of \<^verbatim>\<open>convertToBraille\<close> is the same for every value of the
  \<^verbatim>\<open>language\<close> argument, given or omitted: \<^verbatim>\<open>detectedLang\<close> is computed and
  never read.
\<close>

theorem convertToBraille_ignores_language:
  "convertToBraille text language = convertToBraille text language'"
  by (simp add: convertToBraille_def)

subsection \<open>The fallback pattern\<close>

lemma convertToBraille_nth:
  "i < length (stringIterator text) \<Longrightarrow>
     convertToBraille text language ! i = convertStep (stringIterator text ! i)"
  by (simp add: convertToBraille_map)

lemma lookupPattern_miss: "ch \<notin> fst ` set table \<Longrightarrow> lookupPattern table ch = None"
  using map_of_eq_None_iff [of table ch] by (simp add: lookupPattern_def)

lemma selectPattern_miss:
  assumes "ch \<notin> fst ` set koreanBrailleMap" and "ch \<notin> fst ` set japaneseBrailleMap"
    and "ch \<notin> fst ` set englishBrailleMap" and "ch \<notin> fst ` set punctuationMap"
  shows "selectPattern ch = None"
  using assms
  by (simp add: selectPattern_def convertKoreanChar_def convertJapaneseChar_def
      convertEnglishChar_def convertPunctuation_def lookupPattern_miss)

lemma dotsToUnicode_fallback: "dotsToUnicode [2, 6] = [0x2822]"
  by (simp add: dotsToUnicode_def fromCharCode_def dotIncrement_def)

lemma convertStep_fallback:
  assumes "ch \<noteq> [0x20]" and "ch \<noteq> [0x09]" and "ch \<noteq> [0x0A]" and "selectPattern ch = None"
  shows "convertStep ch = \<lparr>char = ch, unicode = [0x2822], dots = [2, 6]\<rparr>"
  using assms by (simp add: convertStep_def dotsToUnicode_fallback)

text \<open>
  A surrogate pair is one character of two code units: it gets one pattern, the
  fallback, whose \<^verbatim>\<open>char\<close> holds both units.
\<close>

lemma convertToBraille_surrogate_pair:
  "convertToBraille [0xD83D, 0xDE00] language
     = [\<lparr>char = [0xD83D, 0xDE00], unicode = [0x2822], dots = [2, 6]\<rparr>]"
  by (simp add: convertToBraille_map isLeadSurrogate_def isTrailSurrogate_def convertStep_def
      selectPattern_def regexTest_def classMatches_def koreanPattern_def japanesePattern_def
      alphanumericPattern_def convertPunctuation_def lookupPattern_def punctuationMap_def
      dotsToUnicode_fallback)

text \<open>
  C4: \<^verbatim>\<open>convertToBraille\<close> emits exactly one pattern per character, and for a
  character that is neither space, tab nor newline and is a key of none of the four
  tables, that pattern is the fallback: dots \<open>[2, 6]\<close>, the character itself in
  \<^verbatim>\<open>char\<close>, and \<open>U+2822\<close> in \<^verbatim>\<open>unicode\<close>. The source has no
  \<^verbatim>\<open>throw\<close> and calls nothing that can raise on a string, so the model has no
  error value.
\<close>

theorem convertToBraille_total_with_fallback:
  "length (convertToBraille text language) = length (stringIterator text)
   \<and> (\<forall>i < length (stringIterator text).
          stringIterator text ! i \<notin> {[0x20], [0x09], [0x0A]}
          \<and> stringIterator text ! i \<notin> fst ` set koreanBrailleMap
          \<and> stringIterator text ! i \<notin> fst ` set japaneseBrailleMap
          \<and> stringIterator text ! i \<notin> fst ` set englishBrailleMap
          \<and> stringIterator text ! i \<notin> fst ` set punctuationMap
          \<longrightarrow> convertToBraille text language ! i
               = \<lparr>char = stringIterator text ! i, unicode = [0x2822], dots = [2, 6]\<rparr>)"
proof -
  have "length (convertToBraille text language) = length (stringIterator text)"
    by (simp add: convertToBraille_map)
  moreover have "convertToBraille text language ! i
      = \<lparr>char = stringIterator text ! i, unicode = [0x2822], dots = [2, 6]\<rparr>"
    if "i < length (stringIterator text)"
      and "stringIterator text ! i \<notin> {[0x20], [0x09], [0x0A]}"
      and "stringIterator text ! i \<notin> fst ` set koreanBrailleMap"
      and "stringIterator text ! i \<notin> fst ` set japaneseBrailleMap"
      and "stringIterator text ! i \<notin> fst ` set englishBrailleMap"
      and "stringIterator text ! i \<notin> fst ` set punctuationMap" for i
    using that by (simp add: convertToBraille_nth convertStep_fallback selectPattern_miss)
  ultimately show ?thesis by blast
qed

lemma keys_koreanBrailleMap: "[0x2211] \<notin> fst ` set koreanBrailleMap"
  by (simp add: koreanBrailleMap_def)
lemma keys_japaneseBrailleMap: "[0x2211] \<notin> fst ` set japaneseBrailleMap"
  by (simp add: japaneseBrailleMap_def)
lemma keys_englishBrailleMap: "[0x2211] \<notin> fst ` set englishBrailleMap"
  by (simp add: englishBrailleMap_def)
lemma keys_punctuationMap: "[0x2211] \<notin> fst ` set punctuationMap"
  by (simp add: punctuationMap_def)

theorem convertToBraille_total_with_fallback_witness:
  "convertToBraille [0x61, 0x2211] None ! 1 = \<lparr>char = [0x2211], unicode = [0x2822], dots = [2, 6]\<rparr>
   \<and> length (convertToBraille [0x61, 0x2211] None) = 2
   \<and> stringIterator [0x61, 0x2211] ! 1 = [0x2211]
   \<and> [0x2211] \<notin> {[0x20], [0x09], [0x0A :: 16 word]}
   \<and> [0x2211] \<notin> fst ` set koreanBrailleMap \<and> [0x2211] \<notin> fst ` set japaneseBrailleMap
   \<and> [0x2211] \<notin> fst ` set englishBrailleMap \<and> [0x2211] \<notin> fst ` set punctuationMap"
proof -
  have it: "stringIterator [0x61, 0x2211] = [[0x61], [0x2211]]"
    by (simp add: isLeadSurrogate_def)
  show ?thesis
    using convertToBraille_total_with_fallback [of "[0x61, 0x2211]" None]
      keys_koreanBrailleMap keys_japaneseBrailleMap keys_englishBrailleMap keys_punctuationMap
    by (simp add: it del: stringIterator.simps)
qed

subsection \<open>Hangul compatibility jamo\<close>

lemma regexTest_single: "regexTest cls [c] = classMatches cls c"
  by (simp add: regexTest_def)

lemma jamo_no_class:
  assumes "0x3131 \<le> c" and "c \<le> 0x3163"
  shows "\<not> classMatches koreanPattern c" and "\<not> classMatches japanesePattern c"
    and "\<not> classMatches alphanumericPattern c"
  using assms
  by (auto simp: classMatches_def koreanPattern_def japanesePattern_def
      alphanumericPattern_def word_le_nat_alt)

lemma jamo_no_punctuation:
  assumes "0x3131 \<le> c" and "c \<le> 0x3163"
  shows "map_of punctuationMap [c] = None"
  using assms by (auto simp: punctuationMap_def word_le_nat_alt)

lemma jamo_selectPattern:
  assumes "0x3131 \<le> c" and "c \<le> 0x3163"
  shows "selectPattern [c] = None"
  using jamo_no_class [OF assms] jamo_no_punctuation [OF assms]
  by (simp add: selectPattern_def regexTest_single convertPunctuation_def lookupPattern_def)

lemma jamo_no_whitespace:
  fixes c :: "16 word"
  assumes "0x3131 \<le> c" and "c \<le> 0x3163"
  shows "c \<noteq> 0x20" and "c \<noteq> 0x09" and "c \<noteq> 0x0A"
  using assms by (auto simp: word_le_nat_alt)

text \<open>
  C10: a Hangul compatibility jamo (a code unit in \<open>U+3131..U+3163\<close>) gets the
  fallback pattern with dots \<open>[2, 6]\<close>, wherever it stands in the text. The Korean
  branch is guarded by the range \<open>U+AC00..U+D7A3\<close>, which no jamo matches, so
  \<^verbatim>\<open>convertKoreanChar\<close> is never called on one, although the Korean table has
  entries for jamo (\<open>U+3131\<close> and \<open>U+314F\<close> are shown).
\<close>

theorem jamo_yields_fallback:
  assumes "0x3131 \<le> c" and "c \<le> 0x3163"
    and "i < length (stringIterator text)" and "stringIterator text ! i = [c]"
  shows "convertToBraille text language ! i = \<lparr>char = [c], unicode = [0x2822], dots = [2, 6]\<rparr>
       \<and> convertToBraille [c] language = [\<lparr>char = [c], unicode = [0x2822], dots = [2, 6]\<rparr>]
       \<and> \<not> regexTest koreanPattern [c]
       \<and> map_of koreanBrailleMap [0x3131] = Some [1, 4]
       \<and> map_of koreanBrailleMap [0x314F] = Some [1, 2, 6]"
proof -
  have step: "convertStep [c] = \<lparr>char = [c], unicode = [0x2822], dots = [2, 6]\<rparr>"
    by (rule convertStep_fallback) (simp_all add: jamo_no_whitespace [OF assms(1,2)] jamo_selectPattern [OF assms(1,2)])
  have "convertToBraille text language ! i = \<lparr>char = [c], unicode = [0x2822], dots = [2, 6]\<rparr>"
    using assms(3,4) step by (simp add: convertToBraille_nth)
  moreover have "convertToBraille [c] language = [\<lparr>char = [c], unicode = [0x2822], dots = [2, 6]\<rparr>]"
    using step by (simp add: convertToBraille_map)
  moreover have "\<not> regexTest koreanPattern [c]"
    using jamo_no_class(1) [OF assms(1,2)] by (simp add: regexTest_single)
  moreover have "map_of koreanBrailleMap [0x3131] = Some [1, 4]"
    by (simp add: koreanBrailleMap_def)
  moreover have "map_of koreanBrailleMap [0x314F] = Some [1, 2, 6]"
    by (simp add: koreanBrailleMap_def)
  ultimately show ?thesis by blast
qed

theorem jamo_yields_fallback_witness:
  "(0x3131 :: 16 word) \<le> 0x3131 \<and> (0x3131 :: 16 word) \<le> 0x3163
   \<and> stringIterator [0xC548, 0x3131] ! 1 = [0x3131]
   \<and> convertToBraille [0xC548, 0x3131] (Some Korean) ! 1
       = \<lparr>char = [0x3131], unicode = [0x2822], dots = [2, 6]\<rparr>
   \<and> map_of koreanBrailleMap [0x3131] = Some [1, 4]"
proof -
  have it: "stringIterator [0xC548, 0x3131] = [[0xC548], [0x3131]]"
    by (simp add: isLeadSurrogate_def)
  show ?thesis
    using jamo_yields_fallback [of "0x3131" 1 "[0xC548, 0x3131]" "Some Korean"]
    by (simp add: it del: stringIterator.simps)
qed

subsection \<open>Code points stay in the Braille Patterns block\<close>

text \<open>
  A dot list whose increments add up to less than 256 gives a code unit of the Braille
  Patterns block; this holds of every entry of the four tables.
\<close>

lemma dotsToUnicode_in_block:
  assumes "sum_list (map dotIncrement ds) < 256"
  shows "\<exists>w. dotsToUnicode ds = [w] \<and> 0x2800 \<le> w \<and> w \<le> 0x28FF"
proof -
  let ?n = "0x2800 + sum_list (map dotIncrement ds)"
  have bound: "?n < 65536" using assms by simp
  have "unat (word_of_nat ?n :: 16 word) = ?n mod 2 ^ LENGTH(16)"
    by (rule unat_of_nat)
  then have "unat (word_of_nat ?n :: 16 word) = ?n"
    using bound by simp
  then have "0x2800 \<le> (word_of_nat ?n :: 16 word) \<and> (word_of_nat ?n :: 16 word) \<le> 0x28FF"
    using assms by (simp add: word_le_nat_alt)
  moreover have "dotsToUnicode ds = [word_of_nat ?n]"
    by (simp add: dotsToUnicode_def fromCharCode_def dotsLoop_sum)
  ultimately show ?thesis by blast
qed

lemma koreanBrailleMap_sums:
  "list_all (\<lambda>(k, ds). sum_list (map dotIncrement ds) < 256) koreanBrailleMap"
  by (simp add: koreanBrailleMap_def dotIncrement_def)

lemma englishBrailleMap_sums:
  "list_all (\<lambda>(k, ds). sum_list (map dotIncrement ds) < 256) englishBrailleMap"
  by (simp add: englishBrailleMap_def dotIncrement_def)

lemma japaneseBrailleMap_sums:
  "list_all (\<lambda>(k, ds). sum_list (map dotIncrement ds) < 256) japaneseBrailleMap"
  by (simp add: japaneseBrailleMap_def dotIncrement_def)

lemma punctuationMap_sums:
  "list_all (\<lambda>(k, ds). sum_list (map dotIncrement ds) < 256) punctuationMap"
  by (simp add: punctuationMap_def dotIncrement_def)

lemma lookupPattern_in_block:
  assumes "list_all (\<lambda>(k, ds). sum_list (map dotIncrement ds) < 256) table"
    and "lookupPattern table ch = Some p"
  shows "\<exists>w. unicode p = [w] \<and> 0x2800 \<le> w \<and> w \<le> 0x28FF"
proof -
  from assms(2) obtain ds where hit: "map_of table ch = Some ds"
    and p: "p = \<lparr>char = ch, unicode = dotsToUnicode ds, dots = ds\<rparr>"
    by (auto simp: lookupPattern_def split: option.splits)
  from hit have "(ch, ds) \<in> set table" by (rule map_of_SomeD)
  with assms(1) have "sum_list (map dotIncrement ds) < 256"
    by (auto simp: list_all_iff)
  then show ?thesis
    using p by (simp add: dotsToUnicode_in_block)
qed

lemma selectPattern_in_block:
  assumes "selectPattern ch = Some p"
  shows "\<exists>w. unicode p = [w] \<and> 0x2800 \<le> w \<and> w \<le> 0x28FF"
  using assms
  by (auto simp: selectPattern_def convertKoreanChar_def convertJapaneseChar_def
      convertEnglishChar_def convertPunctuation_def split: if_splits
      intro: lookupPattern_in_block [OF koreanBrailleMap_sums]
        lookupPattern_in_block [OF japaneseBrailleMap_sums]
        lookupPattern_in_block [OF englishBrailleMap_sums]
        lookupPattern_in_block [OF punctuationMap_sums])

lemma convertStep_in_block:
  "unicode (convertStep ch) = [0x20] \<or> unicode (convertStep ch) = [0x0A]
   \<or> (\<exists>w. unicode (convertStep ch) = [w] \<and> 0x2800 \<le> w \<and> w \<le> 0x28FF)"
proof (cases "selectPattern ch")
  case None
  then show ?thesis
    by (simp add: convertStep_def dotsToUnicode_fallback)
next
  case (Some p)
  then show ?thesis
    using selectPattern_in_block [OF Some] by (simp add: convertStep_def)
qed

text \<open>
  C9: the \<^verbatim>\<open>unicode\<close> field of every pattern that \<^verbatim>\<open>convertToBraille\<close>
  returns is the space, the newline, or one code unit in \<open>U+2800..U+28FF\<close>. The
  increments of every dot list of the four tables, repeated dots counted each time,
  add up to less than 256, so the sum never leaves the block.
\<close>

theorem convertToBraille_code_point_in_block:
  "\<forall>r \<in> set (convertToBraille text language).
     unicode r = [0x20] \<or> unicode r = [0x0A]
     \<or> (\<exists>w. unicode r = [w] \<and> 0x2800 \<le> w \<and> w \<le> 0x28FF)"
  using convertStep_in_block by (auto simp: convertToBraille_map)

lemma convertToBraille_Y_space:
  "convertToBraille [0x59, 0x20] None
     = [\<lparr>char = [0x59], unicode = [0x285D], dots = [6, 1, 3, 4, 5, 6]\<rparr>,
        \<lparr>char = [0x20], unicode = [0x20], dots = []\<rparr>]"
  by (simp add: convertToBraille_map isLeadSurrogate_def convertStep_def selectPattern_def
      regexTest_def classMatches_def koreanPattern_def japanesePattern_def
      alphanumericPattern_def convertEnglishChar_def lookupPattern_def englishBrailleMap_def
      dotsToUnicode_def fromCharCode_def dotIncrement_def)

theorem convertToBraille_code_point_in_block_witness:
  "convertToBraille [0x59, 0x20] None
     = [\<lparr>char = [0x59], unicode = [0x285D], dots = [6, 1, 3, 4, 5, 6]\<rparr>,
        \<lparr>char = [0x20], unicode = [0x20], dots = []\<rparr>]
   \<and> (0x2800 :: 16 word) \<le> 0x285D \<and> (0x285D :: 16 word) \<le> 0x28FF"
  using convertToBraille_code_point_in_block [of "[0x59, 0x20]" None]
  by (simp add: convertToBraille_Y_space)

subsection \<open>Single characters and the ranges of letters and digits\<close>


lemmas english_eval =
  convertStep_def selectPattern_def regexTest_def classMatches_def koreanPattern_def
  japanesePattern_def alphanumericPattern_def convertEnglishChar_def lookupPattern_def
  englishBrailleMap_def



section \<open>Properties of detectLanguage\<close>

lemma detectLanguage_cases:
  "detectLanguage text =
     (if regexTest koreanPattern text
      then (if regexTest japanesePattern text \<or> regexTest englishPattern text then Mixed else Korean)
      else if regexTest japanesePattern text
      then (if regexTest englishPattern text then Mixed else Japanese)
      else English)"
  by (simp add: detectLanguage_def Let_def)

lemma regexTest_koreanPattern:
  "regexTest koreanPattern text \<longleftrightarrow> (\<exists>u \<in> set text. 0xAC00 \<le> u \<and> u \<le> 0xD7A3)"
  by (simp add: regexTest_def classMatches_def koreanPattern_def list_ex_iff)

lemma regexTest_japanesePattern:
  "regexTest japanesePattern text \<longleftrightarrow>
     (\<exists>u \<in> set text. (0x3040 \<le> u \<and> u \<le> 0x309F) \<or> (0x30A0 \<le> u \<and> u \<le> 0x30FF))"
  by (simp add: regexTest_def classMatches_def japanesePattern_def list_ex_iff)

lemma regexTest_englishPattern:
  "regexTest englishPattern text \<longleftrightarrow>
     (\<exists>u \<in> set text. (0x41 \<le> u \<and> u \<le> 0x5A) \<or> (0x61 \<le> u \<and> u \<le> 0x7A))"
  by (auto simp: regexTest_def classMatches_def englishPattern_def list_ex_iff)

text \<open>
  C5: \<^verbatim>\<open>detectLanguage\<close> depends on three facts only: whether the text has a code
  unit in the Hangul syllable range \<open>U+AC00..U+D7A3\<close>, one in the Hiragana or
  Katakana block, one that is a Latin letter. With two or more present the result is
  \<open>Mixed\<close>, with exactly one the tag of that script, with none \<open>English\<close>.
\<close>

theorem detectLanguage_presence_based:
  "(let hangul = (\<exists>u \<in> set text. 0xAC00 \<le> u \<and> u \<le> 0xD7A3);
        kana = (\<exists>u \<in> set text. (0x3040 \<le> u \<and> u \<le> 0x309F) \<or> (0x30A0 \<le> u \<and> u \<le> 0x30FF));
        latin = (\<exists>u \<in> set text. (0x41 \<le> u \<and> u \<le> 0x5A) \<or> (0x61 \<le> u \<and> u \<le> 0x7A));
        n = (if hangul then 1 else 0) + (if kana then 1 else 0) + (if latin then 1 else (0 :: nat))
    in (2 \<le> n \<longrightarrow> detectLanguage text = Mixed)
     \<and> (n = 1 \<and> hangul \<longrightarrow> detectLanguage text = Korean)
     \<and> (n = 1 \<and> kana \<longrightarrow> detectLanguage text = Japanese)
     \<and> (n = 1 \<and> latin \<longrightarrow> detectLanguage text = English)
     \<and> (n = 0 \<longrightarrow> detectLanguage text = English))"
  unfolding regexTest_koreanPattern [symmetric] regexTest_japanesePattern [symmetric]
    regexTest_englishPattern [symmetric]
  by (simp add: detectLanguage_cases Let_def)

theorem detectLanguage_presence_based_witness:
  "detectLanguage [0xC548, 0xB155, 0xD558, 0xC138, 0xC694] = Korean
   \<and> detectLanguage [0x48, 0x65, 0x6C, 0x6C, 0x6F, 0x20, 0x57, 0x6F, 0x72, 0x6C, 0x64] = English
   \<and> detectLanguage [0x3053, 0x3093, 0x306B, 0x3061, 0x306F] = Japanese
   \<and> detectLanguage [0x48, 0x65, 0x6C, 0x6C, 0x6F, 0x20, 0xC548, 0xB155] = Mixed
   \<and> detectLanguage [0x31, 0x32, 0x33, 0x21] = English"
  using detectLanguage_presence_based [of "[0xC548, 0xB155, 0xD558, 0xC138, 0xC694]"]
    detectLanguage_presence_based [of "[0x48, 0x65, 0x6C, 0x6C, 0x6F, 0x20, 0x57, 0x6F, 0x72, 0x6C, 0x64]"]
    detectLanguage_presence_based [of "[0x3053, 0x3093, 0x306B, 0x3061, 0x306F]"]
    detectLanguage_presence_based [of "[0x48, 0x65, 0x6C, 0x6C, 0x6F, 0x20, 0xC548, 0xB155]"]
    detectLanguage_presence_based [of "[0x31, 0x32, 0x33, 0x21]"]
  by (simp add: Let_def)

section \<open>Dots and code point of every pattern\<close>

text \<open>
  For duplicate-free dots from \<open>1..8\<close> the character is the one at \<open>U+2800\<close> plus the
  specification's bit mask.
\<close>

lemma dotsToUnicode_distinct:
  assumes "distinct ds" and "set ds \<subseteq> {1..8}"
  shows "dotsToUnicode ds = [0x2800 + word_of_nat (specBitmask (set ds))]"
  using assms
  by (simp add: dotsToUnicode_def fromCharCode_def dotsLoop_sum sum_list_dotIncrement)

lemma koreanBrailleMap_range:
  "list_all (\<lambda>(k, ds). list_all (\<lambda>d. 1 \<le> d \<and> d \<le> 8) ds) koreanBrailleMap"
  by (simp add: koreanBrailleMap_def)

lemma englishBrailleMap_range:
  "list_all (\<lambda>(k, ds). list_all (\<lambda>d. 1 \<le> d \<and> d \<le> 8) ds) englishBrailleMap"
  by (simp add: englishBrailleMap_def)

lemma japaneseBrailleMap_range:
  "list_all (\<lambda>(k, ds). list_all (\<lambda>d. 1 \<le> d \<and> d \<le> 8) ds) japaneseBrailleMap"
  by (simp add: japaneseBrailleMap_def)

lemma punctuationMap_range:
  "list_all (\<lambda>(k, ds). list_all (\<lambda>d. 1 \<le> d \<and> d \<le> 8) ds) punctuationMap"
  by (simp add: punctuationMap_def)

lemma lookupPattern_shape:
  assumes "list_all (\<lambda>(k, ds). list_all (\<lambda>d. 1 \<le> d \<and> d \<le> 8) ds) table"
    and "lookupPattern table ch = Some p"
  shows "char p = ch \<and> unicode p = dotsToUnicode (dots p) \<and> set (dots p) \<subseteq> {1..8}"
proof -
  from assms(2) obtain ds where hit: "map_of table ch = Some ds"
    and p: "p = \<lparr>char = ch, unicode = dotsToUnicode ds, dots = ds\<rparr>"
    by (auto simp: lookupPattern_def split: option.splits)
  from hit have "(ch, ds) \<in> set table" by (rule map_of_SomeD)
  with assms(1) have "set ds \<subseteq> {1..8}"
    by (auto simp: list_all_iff)
  then show ?thesis
    using p by simp
qed

lemma selectPattern_shape:
  assumes "selectPattern ch = Some p"
  shows "char p = ch \<and> unicode p = dotsToUnicode (dots p) \<and> set (dots p) \<subseteq> {1..8}"
proof -
  from assms have "lookupPattern koreanBrailleMap ch = Some p
      \<or> lookupPattern japaneseBrailleMap ch = Some p
      \<or> lookupPattern englishBrailleMap ch = Some p
      \<or> lookupPattern punctuationMap ch = Some p"
    by (auto simp: selectPattern_def convertKoreanChar_def convertJapaneseChar_def
        convertEnglishChar_def convertPunctuation_def split: if_splits)
  then show ?thesis
    using lookupPattern_shape [OF koreanBrailleMap_range]
      lookupPattern_shape [OF japaneseBrailleMap_range]
      lookupPattern_shape [OF englishBrailleMap_range]
      lookupPattern_shape [OF punctuationMap_range]
    by blast
qed

lemma convertStep_whitespace:
  "ch = [0x20] \<or> ch = [0x09] \<Longrightarrow> convertStep ch = \<lparr>char = ch, unicode = [0x20], dots = []\<rparr>"
  "ch = [0x0A] \<Longrightarrow> convertStep ch = \<lparr>char = ch, unicode = [0x0A], dots = []\<rparr>"
  by (auto simp: convertStep_def)

lemma convertStep_shape:
  assumes "ch \<noteq> [0x20]" and "ch \<noteq> [0x09]" and "ch \<noteq> [0x0A]"
  shows "unicode (convertStep ch) = dotsToUnicode (dots (convertStep ch))
       \<and> set (dots (convertStep ch)) \<subseteq> {1..8}"
proof (cases "selectPattern ch")
  case None
  then show ?thesis
    using assms by (simp add: convertStep_def)
next
  case (Some p)
  then show ?thesis
    using assms selectPattern_shape [OF Some] by (simp add: convertStep_def)
qed

lemma convertStep_dots_range: "set (dots (convertStep ch)) \<subseteq> {1..8}"
proof (cases "ch = [0x20] \<or> ch = [0x09] \<or> ch = [0x0A]")
  case True
  then show ?thesis
    using convertStep_whitespace [of ch] by auto
next
  case False
  then show ?thesis
    using convertStep_shape [of ch] by simp
qed

text \<open>
  C3, as amended: in every pattern that \<^verbatim>\<open>convertToBraille\<close> returns, the dots are
  numbers from \<open>1..8\<close>; the pattern of a space or tab has no dots and the space as
  \<^verbatim>\<open>unicode\<close>, the pattern of a newline has no dots and the newline; and in every
  other pattern whose dots are duplicate-free, \<^verbatim>\<open>unicode\<close> is the character at
  \<open>U+2800\<close> plus the bit mask of the dots. Nothing is said here of the code point of
  a pattern whose dot list repeats a dot.
\<close>

theorem convertToBraille_dots_and_code_point:
  "\<forall>r \<in> set (convertToBraille text language).
     set (dots r) \<subseteq> {1..8}
     \<and> (char r = [0x20] \<or> char r = [0x09] \<longrightarrow> dots r = [] \<and> unicode r = [0x20])
     \<and> (char r = [0x0A] \<longrightarrow> dots r = [] \<and> unicode r = [0x0A])
     \<and> (char r \<noteq> [0x20] \<and> char r \<noteq> [0x09] \<and> char r \<noteq> [0x0A] \<and> distinct (dots r) \<longrightarrow>
          unicode r = [0x2800 + word_of_nat (specBitmask (set (dots r)))])"
proof
  fix r
  assume "r \<in> set (convertToBraille text language)"
  then obtain ch where r: "r = convertStep ch"
    by (auto simp: convertToBraille_map)
  have range: "set (dots r) \<subseteq> {1..8}"
    unfolding r by (rule convertStep_dots_range)
  have space: "dots r = [] \<and> unicode r = [0x20]" if "char r = [0x20] \<or> char r = [0x09]"
    using that convertStep_whitespace(1) [of ch] by (auto simp: r char_convertStep)
  have newline: "dots r = [] \<and> unicode r = [0x0A]" if "char r = [0x0A]"
    using that convertStep_whitespace(2) [of ch] by (simp add: r char_convertStep)
  have other: "unicode r = [0x2800 + word_of_nat (specBitmask (set (dots r)))]"
    if "char r \<noteq> [0x20] \<and> char r \<noteq> [0x09] \<and> char r \<noteq> [0x0A] \<and> distinct (dots r)"
  proof -
    have "unicode r = dotsToUnicode (dots r)"
      using that convertStep_shape [of ch] by (simp add: r char_convertStep)
    then show ?thesis
      using that range by (simp add: dotsToUnicode_distinct)
  qed
  show "set (dots r) \<subseteq> {1..8}
     \<and> (char r = [0x20] \<or> char r = [0x09] \<longrightarrow> dots r = [] \<and> unicode r = [0x20])
     \<and> (char r = [0x0A] \<longrightarrow> dots r = [] \<and> unicode r = [0x0A])
     \<and> (char r \<noteq> [0x20] \<and> char r \<noteq> [0x09] \<and> char r \<noteq> [0x0A] \<and> distinct (dots r) \<longrightarrow>
          unicode r = [0x2800 + word_of_nat (specBitmask (set (dots r)))])"
    using range space newline other by blast
qed

lemma convertToBraille_A_space_newline_1:
  "convertToBraille [0x41, 0x20, 0x0A, 0x31] None
     = [\<lparr>char = [0x41], unicode = [0x2821], dots = [6, 1]\<rparr>,
        \<lparr>char = [0x20], unicode = [0x20], dots = []\<rparr>,
        \<lparr>char = [0x0A], unicode = [0x0A], dots = []\<rparr>,
        \<lparr>char = [0x31], unicode = [0x283D], dots = [3, 4, 5, 6, 1]\<rparr>]"
  by (simp add: convertToBraille_map isLeadSurrogate_def english_eval dotsToUnicode_def
      fromCharCode_def dotIncrement_def)

theorem convertToBraille_dots_and_code_point_witness:
  "convertToBraille [0x41, 0x20, 0x0A, 0x31] None
     = [\<lparr>char = [0x41], unicode = [0x2821], dots = [6, 1]\<rparr>,
        \<lparr>char = [0x20], unicode = [0x20], dots = []\<rparr>,
        \<lparr>char = [0x0A], unicode = [0x0A], dots = []\<rparr>,
        \<lparr>char = [0x31], unicode = [0x283D], dots = [3, 4, 5, 6, 1]\<rparr>]
   \<and> distinct [6, 1 :: nat] \<and> [0x2821] = [0x2800 + word_of_nat (specBitmask (set [6, 1])) :: 16 word]
   \<and> distinct [3, 4, 5, 6, 1 :: nat]
   \<and> [0x283D] = [0x2800 + word_of_nat (specBitmask (set [3, 4, 5, 6, 1])) :: 16 word]"
  using convertToBraille_dots_and_code_point [of "[0x41, 0x20, 0x0A, 0x31]" None]
  by (simp add: convertToBraille_A_space_newline_1)

lemma convertToBraille_U_space:
  "convertToBraille [0x55, 0x20] None
     = [\<lparr>char = [0x55], unicode = [0x2845], dots = [6, 1, 3, 6]\<rparr>,
        \<lparr>char = [0x20], unicode = [0x20], dots = []\<rparr>]"
  by (simp add: convertToBraille_map isLeadSurrogate_def english_eval dotsToUnicode_def
      fromCharCode_def dotIncrement_def)

text \<open>
  The text \<open>U\<close>, space. The pattern of \<open>U\<close> has the dots \<open>[6, 1, 3, 6]\<close>, which
  repeat dot 6, and the code unit \<open>U+2845\<close> (dots 1, 3 and 7), where the bit mask of
  its dots gives \<open>U+2825\<close>: the loop of \<^verbatim>\<open>dotsToUnicode\<close> adds \<open>0x20\<close> twice. The
  pattern of the space has no dots and the code unit \<open>U+0020\<close>, not \<open>U+2800\<close>.
\<close>

theorem convertToBraille_dots_and_code_point_counterexample:
  "convertToBraille [0x55, 0x20] None
     = [\<lparr>char = [0x55], unicode = [0x2845], dots = [6, 1, 3, 6]\<rparr>,
        \<lparr>char = [0x20], unicode = [0x20], dots = []\<rparr>]
   \<and> \<not> distinct (dots (convertToBraille [0x55, 0x20] None ! 0))
   \<and> unicode (convertToBraille [0x55, 0x20] None ! 0)
       \<noteq> [0x2800 + word_of_nat (specBitmask (set (dots (convertToBraille [0x55, 0x20] None ! 0))))]
   \<and> unicode (convertToBraille [0x55, 0x20] None ! 1)
       \<noteq> [0x2800 + word_of_nat (specBitmask (set (dots (convertToBraille [0x55, 0x20] None ! 1))))]"
proof -
  have r0: "convertToBraille [0x55, 0x20] None ! 0
      = \<lparr>char = [0x55], unicode = [0x2845], dots = [6, 1, 3, 6]\<rparr>"
    and r1: "convertToBraille [0x55, 0x20] None ! 1
      = \<lparr>char = [0x20], unicode = [0x20], dots = []\<rparr>"
    by (simp_all add: convertToBraille_U_space)
  have "\<not> distinct (dots (convertToBraille [0x55, 0x20] None ! 0))
   \<and> unicode (convertToBraille [0x55, 0x20] None ! 0)
       \<noteq> [0x2800 + word_of_nat (specBitmask (set (dots (convertToBraille [0x55, 0x20] None ! 0))))]
   \<and> unicode (convertToBraille [0x55, 0x20] None ! 1)
       \<noteq> [0x2800 + word_of_nat (specBitmask (set (dots (convertToBraille [0x55, 0x20] None ! 1))))]"
    unfolding r0 r1 by (simp add: specBitmask_def upt_rec)
  then show ?thesis
    using convertToBraille_U_space by blast
qed

section \<open>Uppercase letters and digits\<close>








end
